theory Spec2Isabelle
  imports Complex_Main
begin

section \<open>Invoicing service: a shallow embedding of \<open>app/routes/invoices.py\<close>\<close>

text \<open>
  The four routes of the invoicing service (create, list, get, delete) and the helper
  \<open>calculate_invoice_totals\<close> are modelled as functions on an explicit database
  state. Scope of the model:
  \<^item> A Python \<open>float\<close> is a binary64 number. It is modelled by the rational it denotes,
    and every arithmetic operation rounds its exact result to 53 significant bits, ties to
    even. The exponent range is taken as unbounded, so overflow to infinity, subnormal
    numbers, NaN and the sign of zero are outside the model.
  \<^item> A Python \<open>int\<close> is a mathematical integer. The range checks of the database driver
    (an integer bound as a parameter has to fit 64 bits) and of the conversion of an integer
    to a float are outside the model.
  \<^item> A table is the list of its rows in rowid order, together with the counter that
    \<open>AUTOINCREMENT\<close> keeps for it; \<open>clients\<close> and \<open>products\<close> are only read by primary
    key and are maps from the key to the row.
  \<^item> A \<open>SELECT\<close> without \<open>ORDER BY\<close> returns rows in table order.
\<close>

subsection \<open>Python floats\<close>

type_synonym pyfloat = rat

function bit_length :: "int \<Rightarrow> int" where
  "bit_length n = (if n \<le> 0 then 0 else bit_length (n div 2) + 1)"
  by pat_completeness auto
termination
  by (relation "measure nat") auto

declare bit_length.simps [simp del]

definition pow2 :: "int \<Rightarrow> rat" where
  "pow2 e = (if 0 \<le> e then 2 ^ nat e else 1 / 2 ^ nat (- e))"

definition round_half_even :: "rat \<Rightarrow> int" where
  "round_half_even x =
     (let f = \<lfloor>x\<rfloor>; r = x - of_int f
      in if r < 1 / 2 then f else if 1 / 2 < r then f + 1
         else if even f then f else f + 1)"

text \<open>\<open>binade x\<close> is the exponent \<open>e\<close> with \<open>2 ^ e \<le> \<bar>x\<bar> < 2 ^ (e + 1)\<close>, for \<open>x \<noteq> 0\<close>.\<close>

definition binade :: "rat \<Rightarrow> int" where
  "binade x =
     (let (a, b) = quotient_of \<bar>x\<bar>;
          k = bit_length a - bit_length b
      in if pow2 k \<le> \<bar>x\<bar> then k else k - 1)"

definition round53 :: "rat \<Rightarrow> pyfloat" where
  "round53 x =
     (if x = 0 then 0
      else let e = binade x - 52
           in sgn x * of_int (round_half_even (\<bar>x\<bar> / pow2 e)) * pow2 e)"

definition fmul :: "pyfloat \<Rightarrow> pyfloat \<Rightarrow> pyfloat" where
  "fmul a b = round53 (a * b)"

definition fadd :: "pyfloat \<Rightarrow> pyfloat \<Rightarrow> pyfloat" where
  "fadd a b = round53 (a + b)"

definition float_of_int :: "int \<Rightarrow> pyfloat" where
  "float_of_int i = round53 (of_int i)"

text \<open>A decimal literal of the source, such as \<open>0.10\<close> or \<open>99.99\<close>, denotes the nearest float.\<close>

definition float_lit :: "rat \<Rightarrow> pyfloat" where
  "float_lit q = round53 q"

subsection \<open>Strings of integers and exceptions\<close>

function digits :: "int \<Rightarrow> string" where
  "digits n = (if n < 10 then [''0123456789'' ! nat n]
               else digits (n div 10) @ [''0123456789'' ! nat (n mod 10)])"
  by pat_completeness auto
termination
  by (relation "measure nat") auto

declare digits.simps [simp del]

definition str_int :: "int \<Rightarrow> string" where
  "str_int i = (if i < 0 then ''-'' @ digits (- i) else digits i)"

datatype exn =
    HTTPException int string
  | IntegrityError string
  | NameError string

fun str_exn :: "exn \<Rightarrow> string" where
  "str_exn (HTTPException code detail) = str_int code @ '': '' @ detail"
| "str_exn (IntegrityError msg) = msg"
| "str_exn (NameError name) = ''name '' @ [CHR 0x27] @ name @ [CHR 0x27] @ '' is not defined''"

text \<open>
  The names bound in the module \<open>app/routes/invoices.py\<close>: its imports (lines 1 to 5), the
  router, the five models, the helper and the four routes. The module \<open>sqlite3\<close> is not
  among the imports.
\<close>

definition module_names :: "string list" where
  "module_names =
     [''APIRouter'', ''HTTPException'', ''status'', ''BaseModel'', ''List'', ''Optional'',
      ''date'', ''get_db'', ''router'', ''InvoiceItemCreate'', ''InvoiceCreate'',
      ''InvoiceItemResponse'', ''InvoiceResponse'', ''InvoiceListResponse'',
      ''calculate_invoice_totals'', ''create_invoice'', ''list_invoices'', ''get_invoice'',
      ''delete_invoice'']"

definition name_lookup :: "string \<Rightarrow> exn + unit" where
  "name_lookup name = (if name \<in> set module_names then Inr () else Inl (NameError name))"

subsection \<open>Request and response models\<close>

datatype date = Date int int int

record InvoiceItemCreate =
  product_id :: int
  quantity :: int

record InvoiceCreate =
  client_id :: int
  invoice_no :: string
  issue_date :: date
  due_date :: date
  items :: "InvoiceItemCreate list"

record InvoiceItemResponse =
  ir_id :: int
  ir_product_name :: string
  ir_quantity :: int
  ir_unit_price :: pyfloat
  ir_line_total :: pyfloat

record InvoiceResponse =
  r_id :: int
  r_invoice_no :: string
  r_issue_date :: date
  r_due_date :: date
  r_client_name :: string
  r_tax_amount :: pyfloat
  r_total_amount :: pyfloat
  r_items :: "InvoiceItemResponse list"

record InvoiceListResponse =
  l_id :: int
  l_invoice_no :: string
  l_issue_date :: date
  l_due_date :: date
  l_client_name :: string
  l_total_amount :: pyfloat

subsection \<open>The database of migration 002\<close>

record client_row =
  c_name :: string
  c_address :: string
  c_company_reg_no :: string

record product_row =
  pr_name :: string
  pr_price :: pyfloat

record invoice_row =
  inv_id :: int
  inv_invoice_no :: string
  inv_issue_date :: date
  inv_due_date :: date
  inv_client_id :: int
  inv_tax_amount :: pyfloat
  inv_total_amount :: pyfloat

record item_row =
  it_id :: int
  it_invoice_id :: int
  it_product_id :: int
  it_quantity :: int
  it_unit_price :: pyfloat
  it_line_total :: pyfloat

record database =
  clients :: "int \<rightharpoonup> client_row"
  products :: "int \<rightharpoonup> product_row"
  invoices :: "invoice_row list"
  invoices_seq :: int
  invoice_items :: "item_row list"
  invoice_items_seq :: int

text \<open>
  \<open>INTEGER PRIMARY KEY AUTOINCREMENT\<close>: the new rowid is one more than the largest rowid
  the table has ever held, which the counter of the table records.
\<close>

definition next_rowid :: "int \<Rightarrow> int list \<Rightarrow> int" where
  "next_rowid seq ids = fold max ids seq + 1"

text \<open>
  The state that \<open>upgrade\<close> of \<open>migrations/002_create_invoicing_tables.py\<close> leaves in a
  fresh database: four tables, three clients, five products, no invoice.
\<close>

definition seed_clients :: "int \<rightharpoonup> client_row" where
  "seed_clients =
     [1 \<mapsto> \<lparr>c_name = ''Acme Corp'', c_address = ''123 Business Rd, Tech City'',
            c_company_reg_no = ''REG123456''\<rparr>,
      2 \<mapsto> \<lparr>c_name = ''Globex Inc'', c_address = ''456 Global Way, World Town'',
            c_company_reg_no = ''REG654321''\<rparr>,
      3 \<mapsto> \<lparr>c_name = ''Soylent Corp'', c_address = ''789 Green St, Eco City'',
            c_company_reg_no = ''REG987654''\<rparr>]"

definition seed_products :: "int \<rightharpoonup> product_row" where
  "seed_products =
     [1 \<mapsto> \<lparr>pr_name = ''Widget A'', pr_price = float_lit 10\<rparr>,
      2 \<mapsto> \<lparr>pr_name = ''Widget B'', pr_price = float_lit (2550 / 100)\<rparr>,
      3 \<mapsto> \<lparr>pr_name = ''Gadget X'', pr_price = float_lit 50\<rparr>,
      4 \<mapsto> \<lparr>pr_name = ''Gadget Y'', pr_price = float_lit (9999 / 100)\<rparr>,
      5 \<mapsto> \<lparr>pr_name = ''Service Hour'', pr_price = float_lit 150\<rparr>]"

definition upgrade :: database where
  "upgrade =
     \<lparr>clients = seed_clients, products = seed_products,
      invoices = [], invoices_seq = 0, invoice_items = [], invoice_items_seq = 0\<rparr>"

text \<open>
  Modelled from the spec: \<open>app/database.py\<close> with the context manager \<open>get_db\<close> is not
  under the sources. The comment at its use in \<open>create_invoice\<close> and the repository
  contract of the specification say that it commits when the block ends normally and
  rolls back when the block raises: the block's writes are kept in the first case and
  dropped in the second.
\<close>

definition get_db :: "(database \<Rightarrow> exn + 'a \<times> database) \<Rightarrow> database \<Rightarrow> (exn + 'a) \<times> database" where
  "get_db body db =
     (case body db of
        Inl e \<Rightarrow> (Inl e, db)
      | Inr (v, db') \<Rightarrow> (Inr v, db'))"

subsection \<open>The pricing helper\<close>

text \<open>The dictionaries that \<open>calculate_invoice_totals\<close> appends to \<open>processed_items\<close>.\<close>

record processed_item =
  p_product_id :: int
  p_product_name :: string
  p_unit_price :: pyfloat
  p_quantity :: int
  p_line_total :: pyfloat

text \<open>
  The loop of lines 54 to 70, with its two accumulators \<open>total_amount\<close> and
  \<open>processed_items\<close>. A product that has no row raises at once. \<open>process_line\<close> is
  the dictionary of lines 64 to 70; the row fetched by \<open>WHERE id = ?\<close> has the requested
  identifier.
\<close>

definition process_line :: "product_row \<Rightarrow> InvoiceItemCreate \<Rightarrow> processed_item" where
  "process_line product item =
     (let line_total = fmul (pr_price product) (float_of_int (quantity item))
      in \<lparr>p_product_id = product_id item, p_product_name = pr_name product,
          p_unit_price = pr_price product, p_quantity = quantity item,
          p_line_total = line_total\<rparr>)"

fun totals_loop ::
  "(int \<rightharpoonup> product_row) \<Rightarrow> InvoiceItemCreate list \<Rightarrow> pyfloat \<Rightarrow> processed_item list \<Rightarrow>
   exn + pyfloat \<times> processed_item list" where
  "totals_loop ps [] total_amount processed_items = Inr (total_amount, processed_items)"
| "totals_loop ps (item # rest) total_amount processed_items =
     (case ps (product_id item) of
        None \<Rightarrow>
          Inl (HTTPException 404 (''Product with ID '' @ str_int (product_id item) @ '' not found''))
      | Some product \<Rightarrow>
          totals_loop ps rest (fadd total_amount (p_line_total (process_line product item)))
            (processed_items @ [process_line product item]))"

definition calculate_invoice_totals ::
  "InvoiceItemCreate list \<Rightarrow> database \<Rightarrow> exn + processed_item list \<times> pyfloat \<times> pyfloat" where
  "calculate_invoice_totals its conn =
     (case totals_loop (products conn) its 0 [] of
        Inl e \<Rightarrow> Inl e
      | Inr (total_amount, processed_items) \<Rightarrow>
          let tax_amount = fmul total_amount (float_lit (10 / 100));
              final_total = fadd total_amount tax_amount
          in Inr (processed_items, tax_amount, final_total))"

subsection \<open>The routes\<close>

text \<open>
  The handlers that end \<open>create_invoice\<close>, \<open>get_invoice\<close> and \<open>delete_invoice\<close>: an
  \<open>HTTPException\<close> is raised again, any other exception becomes a 500. The single
  handler of \<open>list_invoices\<close> turns every exception into a 500.
\<close>

definition database_error :: "exn \<Rightarrow> exn" where
  "database_error e = HTTPException 500 (''Database error: '' @ str_exn e)"

fun reraise :: "exn \<Rightarrow> exn" where
  "reraise (HTTPException code detail) = HTTPException code detail"
| "reraise e = database_error e"

definition route :: "(exn \<Rightarrow> exn) \<Rightarrow> (exn + 'a) \<times> database \<Rightarrow> (exn + 'a) \<times> database" where
  "route handler out = (case fst out of Inl e \<Rightarrow> (Inl (handler e), snd out) | Inr v \<Rightarrow> out)"

text \<open>
  The \<open>INSERT\<close> into \<open>invoices\<close> of lines 102 to 106. The column \<open>invoice_no\<close> is
  \<open>UNIQUE\<close>: a number that a row already holds makes the driver raise \<open>IntegrityError\<close>
  and nothing is written. Otherwise \<open>lastrowid\<close> is the rowid of the new row.
\<close>

definition insert_invoice ::
  "string \<Rightarrow> date \<Rightarrow> date \<Rightarrow> int \<Rightarrow> pyfloat \<Rightarrow> pyfloat \<Rightarrow> database \<Rightarrow> exn + int \<times> database" where
  "insert_invoice no issue due cid tax_amount total_amount conn =
     (if no \<in> set (map inv_invoice_no (invoices conn))
      then Inl (IntegrityError ''UNIQUE constraint failed: invoices.invoice_no'')
      else let lastrowid = next_rowid (invoices_seq conn) (map inv_id (invoices conn))
           in Inr (lastrowid,
                   conn\<lparr>invoices := invoices conn @
                           [\<lparr>inv_id = lastrowid, inv_invoice_no = no, inv_issue_date = issue,
                             inv_due_date = due, inv_client_id = cid, inv_tax_amount = tax_amount,
                             inv_total_amount = total_amount\<rparr>],
                         invoices_seq := lastrowid\<rparr>))"

text \<open>
  The clause \<open>except sqlite3.IntegrityError\<close> of line 107. Python evaluates the
  expression \<open>sqlite3.IntegrityError\<close> when an exception reaches the clause, and the
  lookup of the name \<open>sqlite3\<close> comes first; only then is the exception matched.
\<close>

definition except_IntegrityError :: "exn \<Rightarrow> exn" where
  "except_IntegrityError e =
     (case name_lookup ''sqlite3'' of
        Inl name_error \<Rightarrow> name_error
      | Inr _ \<Rightarrow>
          (case e of
             IntegrityError msg \<Rightarrow> HTTPException 400 ''Invoice number already exists''
           | _ \<Rightarrow> e))"

text \<open>The \<open>INSERT\<close> into \<open>invoice_items\<close> of lines 112 to 115, and the loop around it.\<close>

definition insert_invoice_item :: "int \<Rightarrow> processed_item \<Rightarrow> database \<Rightarrow> database" where
  "insert_invoice_item invoice_id item conn =
     (let rowid = next_rowid (invoice_items_seq conn) (map it_id (invoice_items conn))
      in conn\<lparr>invoice_items := invoice_items conn @
                 [\<lparr>it_id = rowid, it_invoice_id = invoice_id, it_product_id = p_product_id item,
                   it_quantity = p_quantity item, it_unit_price = p_unit_price item,
                   it_line_total = p_line_total item\<rparr>],
               invoice_items_seq := rowid\<rparr>)"

fun insert_invoice_items :: "int \<Rightarrow> processed_item list \<Rightarrow> database \<Rightarrow> database" where
  "insert_invoice_items invoice_id [] conn = conn"
| "insert_invoice_items invoice_id (item # rest) conn =
     insert_invoice_items invoice_id rest (insert_invoice_item invoice_id item conn)"

definition response_item :: "processed_item \<Rightarrow> InvoiceItemResponse" where
  "response_item item =
     \<lparr>ir_id = 0, ir_product_name = p_product_name item, ir_quantity = p_quantity item,
      ir_unit_price = p_unit_price item, ir_line_total = p_line_total item\<rparr>"

definition create_invoice_body :: "InvoiceCreate \<Rightarrow> database \<Rightarrow> exn + InvoiceResponse \<times> database" where
  "create_invoice_body invoice conn =
     (case clients conn (client_id invoice) of
        None \<Rightarrow> Inl (HTTPException 404 ''Client not found'')
      | Some client \<Rightarrow>
          (case calculate_invoice_totals (items invoice) conn of
             Inl e \<Rightarrow> Inl e
           | Inr (processed_items, tax_amount, total_amount) \<Rightarrow>
               (case insert_invoice (invoice_no invoice) (issue_date invoice) (due_date invoice)
                       (client_id invoice) tax_amount total_amount conn of
                  Inl e \<Rightarrow> Inl (except_IntegrityError e)
                | Inr (invoice_id, conn1) \<Rightarrow>
                    Inr (\<lparr>r_id = invoice_id, r_invoice_no = invoice_no invoice,
                          r_issue_date = issue_date invoice, r_due_date = due_date invoice,
                          r_client_name = c_name client, r_tax_amount = tax_amount,
                          r_total_amount = total_amount,
                          r_items = map response_item processed_items\<rparr>,
                         insert_invoice_items invoice_id processed_items conn1))))"

definition create_invoice :: "InvoiceCreate \<Rightarrow> database \<Rightarrow> (exn + InvoiceResponse) \<times> database" where
  "create_invoice invoice db = route reraise (get_db (create_invoice_body invoice) db)"

text \<open>
  \<open>list_invoices\<close>: the join of \<open>invoices\<close> with \<open>clients\<close> keeps an invoice only when
  the row of its client exists; \<open>ORDER BY i.id DESC\<close> sorts by the negated identifier.
\<close>

definition list_row :: "database \<Rightarrow> invoice_row \<Rightarrow> InvoiceListResponse option" where
  "list_row conn i =
     (case clients conn (inv_client_id i) of
        None \<Rightarrow> None
      | Some c \<Rightarrow>
          Some \<lparr>l_id = inv_id i, l_invoice_no = inv_invoice_no i, l_issue_date = inv_issue_date i,
                l_due_date = inv_due_date i, l_client_name = c_name c,
                l_total_amount = inv_total_amount i\<rparr>)"

definition list_invoices :: "database \<Rightarrow> (exn + InvoiceListResponse list) \<times> database" where
  "list_invoices db =
     route database_error (get_db (\<lambda>conn.
       Inr (List.map_filter (list_row conn) (sort_key (\<lambda>i. - inv_id i) (invoices conn)), conn)) db)"

text \<open>
  \<open>get_invoice\<close>: the header query joins with \<open>clients\<close> and \<open>fetchone\<close> takes its first
  row; the item query joins every item of the invoice with \<open>products\<close>, so an item is
  returned only when the row of its product exists, and its name is read from that row.
\<close>

definition header_row :: "database \<Rightarrow> invoice_row \<Rightarrow> (invoice_row \<times> client_row) option" where
  "header_row conn i = (case clients conn (inv_client_id i) of None \<Rightarrow> None | Some c \<Rightarrow> Some (i, c))"

definition item_response :: "database \<Rightarrow> item_row \<Rightarrow> InvoiceItemResponse option" where
  "item_response conn ii =
     (case products conn (it_product_id ii) of
        None \<Rightarrow> None
      | Some p \<Rightarrow>
          Some \<lparr>ir_id = it_id ii, ir_product_name = pr_name p, ir_quantity = it_quantity ii,
                ir_unit_price = it_unit_price ii, ir_line_total = it_line_total ii\<rparr>)"

definition get_invoice_body :: "int \<Rightarrow> database \<Rightarrow> exn + InvoiceResponse \<times> database" where
  "get_invoice_body invoice_id conn =
     (case List.map_filter (header_row conn)
             (filter (\<lambda>i. inv_id i = invoice_id) (invoices conn)) of
        [] \<Rightarrow> Inl (HTTPException 404 ''Invoice not found'')
      | (invoice, client) # _ \<Rightarrow>
          Inr (\<lparr>r_id = inv_id invoice, r_invoice_no = inv_invoice_no invoice,
                r_issue_date = inv_issue_date invoice, r_due_date = inv_due_date invoice,
                r_client_name = c_name client, r_tax_amount = inv_tax_amount invoice,
                r_total_amount = inv_total_amount invoice,
                r_items = List.map_filter (item_response conn)
                            (filter (\<lambda>ii. it_invoice_id ii = invoice_id) (invoice_items conn))\<rparr>,
               conn))"

definition get_invoice :: "int \<Rightarrow> database \<Rightarrow> (exn + InvoiceResponse) \<times> database" where
  "get_invoice invoice_id db = route reraise (get_db (get_invoice_body invoice_id) db)"

text \<open>
  \<open>delete_invoice\<close>: the existence check, then the items of the invoice, then its
  header. The route returns \<open>None\<close> with status 204.
\<close>

definition delete_invoice_body :: "int \<Rightarrow> database \<Rightarrow> exn + unit \<times> database" where
  "delete_invoice_body invoice_id conn =
     (if filter (\<lambda>i. inv_id i = invoice_id) (invoices conn) = []
      then Inl (HTTPException 404 ''Invoice not found'')
      else let conn1 = conn\<lparr>invoice_items :=
                              filter (\<lambda>ii. it_invoice_id ii \<noteq> invoice_id) (invoice_items conn)\<rparr>;
               conn2 = conn1\<lparr>invoices := filter (\<lambda>i. inv_id i \<noteq> invoice_id) (invoices conn1)\<rparr>
           in Inr ((), conn2))"

definition delete_invoice :: "int \<Rightarrow> database \<Rightarrow> (exn + unit) \<times> database" where
  "delete_invoice invoice_id db = route reraise (get_db (delete_invoice_body invoice_id) db)"

subsection \<open>Notions used to state the properties\<close>

text \<open>
  The constraints that the schema of migration 002 declares, and that \<open>AUTOINCREMENT\<close>
  maintains: primary keys are unique, \<open>invoice_no\<close> is unique, the counters are not
  negative and bound the rowids, an invoice references a client, an item references an
  invoice and a product.
\<close>

definition schema_ok :: "database \<Rightarrow> bool" where
  "schema_ok db \<longleftrightarrow>
     distinct (map inv_id (invoices db)) \<and>
     distinct (map inv_invoice_no (invoices db)) \<and>
     0 \<le> invoices_seq db \<and>
     (\<forall>i\<in>set (invoices db).
        inv_id i \<le> invoices_seq db \<and> clients db (inv_client_id i) \<noteq> None) \<and>
     distinct (map it_id (invoice_items db)) \<and>
     0 \<le> invoice_items_seq db \<and>
     (\<forall>ii\<in>set (invoice_items db).
        it_id ii \<le> invoice_items_seq db \<and>
        it_invoice_id ii \<in> inv_id ` set (invoices db) \<and>
        products db (it_product_id ii) \<noteq> None)"


text \<open>The priced lines of a request all of whose products exist, in the order of the request.\<close>

definition priced_lines :: "(int \<rightharpoonup> product_row) \<Rightarrow> InvoiceItemCreate list \<Rightarrow> processed_item list" where
  "priced_lines ps its = map (\<lambda>it. process_line (the (ps (product_id it))) it) its"

text \<open>The largest rowid that the items table has ever held.\<close>

definition items_top :: "database \<Rightarrow> int" where
  "items_top conn = fold max (map it_id (invoice_items conn)) (invoice_items_seq conn)"

text \<open>The item rows of invoice \<open>n\<close> for the given priced lines, with the rowids after \<open>k\<close>.\<close>

fun item_rows :: "int \<Rightarrow> int \<Rightarrow> processed_item list \<Rightarrow> item_row list" where
  "item_rows n k [] = []"
| "item_rows n k (l # ls) =
     \<lparr>it_id = k + 1, it_invoice_id = n, it_product_id = p_product_id l,
      it_quantity = p_quantity l, it_unit_price = p_unit_price l,
      it_line_total = p_line_total l\<rparr> # item_rows n (k + 1) ls"

text \<open>The requests of the smoke test \<open>verify_invoices.py\<close> and variations of it.\<close>

definition test_invoice :: InvoiceCreate where
  "test_invoice =
     \<lparr>client_id = 1, invoice_no = ''INV-001'', issue_date = Date 2023 10 27,
      due_date = Date 2023 11 27,
      items = [\<lparr>product_id = 1, quantity = 2\<rparr>, \<lparr>product_id = 3, quantity = 1\<rparr>]\<rparr>"

definition after_test_invoice :: database where
  "after_test_invoice =
     upgrade
       \<lparr>invoices :=
          [\<lparr>inv_id = 1, inv_invoice_no = ''INV-001'', inv_issue_date = Date 2023 10 27,
            inv_due_date = Date 2023 11 27, inv_client_id = 1, inv_tax_amount = 7,
            inv_total_amount = 77\<rparr>],
        invoices_seq := 1,
        invoice_items :=
          [\<lparr>it_id = 1, it_invoice_id = 1, it_product_id = 1, it_quantity = 2,
            it_unit_price = 10, it_line_total = 20\<rparr>,
           \<lparr>it_id = 2, it_invoice_id = 1, it_product_id = 3, it_quantity = 1,
            it_unit_price = 50, it_line_total = 50\<rparr>],
        invoice_items_seq := 2\<rparr>"

definition second_invoice :: InvoiceCreate where
  "second_invoice =
     \<lparr>client_id = 2, invoice_no = ''INV-002'', issue_date = Date 2023 10 28,
      due_date = Date 2023 11 28, items = [\<lparr>product_id = 5, quantity = 1\<rparr>]\<rparr>"

definition after_second_invoice :: database where
  "after_second_invoice =
     after_test_invoice
       \<lparr>invoices := invoices after_test_invoice @
          [\<lparr>inv_id = 2, inv_invoice_no = ''INV-002'', inv_issue_date = Date 2023 10 28,
            inv_due_date = Date 2023 11 28, inv_client_id = 2, inv_tax_amount = 15,
            inv_total_amount = 165\<rparr>],
        invoices_seq := 2,
        invoice_items := invoice_items after_test_invoice @
          [\<lparr>it_id = 3, it_invoice_id = 2, it_product_id = 5, it_quantity = 1,
            it_unit_price = 150, it_line_total = 150\<rparr>],
        invoice_items_seq := 3\<rparr>"

text \<open>The databases that the routes reach from the seeded one.\<close>

inductive reachable :: "database \<Rightarrow> bool" where
  seeded: "reachable upgrade"
| created: "reachable db \<Longrightarrow> reachable (snd (create_invoice req db))"
| listed: "reachable db \<Longrightarrow> reachable (snd (list_invoices db))"
| fetched: "reachable db \<Longrightarrow> reachable (snd (get_invoice n db))"
| deleted: "reachable db \<Longrightarrow> reachable (snd (delete_invoice n db))"

section \<open>Properties\<close>

subsection \<open>Float arithmetic of the examples\<close>

text \<open>
  The rounding agrees with Python on the usual test values: \<open>0.1 + 0.2\<close> is
  \<open>0.30000000000000004\<close> and not the float \<open>0.3\<close>, and \<open>2 ** 53 + 1\<close> is not a float.
\<close>

lemma rounding_checks:
  "fadd (float_lit (1 / 10)) (float_lit (2 / 10)) = 5404319552844596 / 18014398509481984"
  "float_lit (3 / 10) = 5404319552844595 / 18014398509481984"
  "float_of_int (2 ^ 53 + 1) = 2 ^ 53"
  "float_of_int (2 ^ 53 + 3) = 2 ^ 53 + 4"
  unfolding float_lit_def float_of_int_def by code_simp+

lemma float_tenth: "float_lit (1 / 10) = 3602879701896397 / 36028797018963968"
  unfolding float_lit_def by code_simp

lemma example_floats:
  "float_lit 10 = 10" "float_lit 50 = 50" "float_of_int 2 = 2" "float_of_int 1 = 1"
  "fmul 10 2 = 20" "fmul 50 1 = 50" "fadd 0 20 = 20" "fadd 20 50 = 70"
  "fmul 70 (3602879701896397 / 36028797018963968) = 7" "fadd 70 7 = 77"
  unfolding float_lit_def float_of_int_def by code_simp+

lemma second_floats:
  "float_lit 150 = 150" "fmul 150 1 = 150" "fadd 0 150 = 150"
  "fmul 150 (3602879701896397 / 36028797018963968) = 15" "fadd 150 15 = 165"
  unfolding float_lit_def by code_simp+

lemma round53_zero [simp]: "round53 0 = 0"
  by (simp add: round53_def)

lemma zero_floats [simp]: "fmul 0 x = 0" "fmul x 0 = 0" "fadd 0 0 = 0" "float_of_int 0 = 0"
  by (simp_all add: fmul_def fadd_def float_of_int_def)

subsection \<open>The pricing loop\<close>

lemma totals_loop_all_found:
  assumes "\<forall>it\<in>set its. ps (product_id it) \<noteq> None"
  shows "totals_loop ps its t acc =
           Inr (foldl fadd t (map p_line_total (priced_lines ps its)), acc @ priced_lines ps its)"
  using assms by (induction its arbitrary: t acc) (auto simp: priced_lines_def)


lemma calculate_invoice_totals_all_found:
  assumes "\<forall>it\<in>set its. products conn (product_id it) \<noteq> None"
  shows "calculate_invoice_totals its conn =
           (let subtotal = foldl fadd 0 (map p_line_total (priced_lines (products conn) its));
                tax_amount = fmul subtotal (float_lit (10 / 100))
            in Inr (priced_lines (products conn) its, tax_amount, fadd subtotal tax_amount))"
  using totals_loop_all_found[OF assms, of 0 "[]"]
  by (simp add: calculate_invoice_totals_def Let_def)



subsection \<open>Rowids\<close>

lemma fold_max_ge_init: "s \<le> fold max xs (s::int)"
  by (induction xs arbitrary: s) (auto intro: order_trans[OF max.cobounded2])

lemma fold_max_ge_elem: "x \<in> set xs \<Longrightarrow> x \<le> fold max xs (s::int)"
proof (induction xs arbitrary: s)
  case Nil then show ?case by simp
next
  case (Cons y ys)
  show ?case
  proof (cases "x = y")
    case True
    have "y \<le> max y s" by simp
    also have "\<dots> \<le> fold max ys (max y s)" by (rule fold_max_ge_init)
    finally show ?thesis using True by simp
  next
    case False
    with Cons show ?thesis by simp
  qed
qed

lemma fold_max_bounded: "\<forall>x\<in>set xs. x \<le> s \<Longrightarrow> fold max xs (s::int) = s"
  by (induction xs arbitrary: s) (auto simp: max_def)

lemma next_rowid_fresh: "x \<in> set ids \<Longrightarrow> x < next_rowid seq ids"
  using fold_max_ge_elem[of x ids seq] by (simp add: next_rowid_def)

lemma next_rowid_gt_seq: "seq < next_rowid seq ids"
  using fold_max_ge_init[of seq ids] by (simp add: next_rowid_def)

lemma items_top_insert:
  "items_top (insert_invoice_item n l conn) = items_top conn + 1"
proof -
  let ?ids = "map it_id (invoice_items conn)"
  let ?r = "next_rowid (invoice_items_seq conn) ?ids"
  have "fold max ?ids ?r = ?r"
  proof (rule fold_max_bounded, rule ballI)
    fix x assume "x \<in> set ?ids"
    then show "x \<le> ?r"
      using next_rowid_fresh[of x ?ids "invoice_items_seq conn"] by simp
  qed
  then show ?thesis
    by (simp add: items_top_def insert_invoice_item_def Let_def next_rowid_def)
qed

lemma insert_invoice_items_eq:
  "insert_invoice_items n ls conn =
     (if ls = [] then conn
      else conn\<lparr>invoice_items := invoice_items conn @ item_rows n (items_top conn) ls,
                invoice_items_seq := items_top conn + int (length ls)\<rparr>)"
proof (induction ls arbitrary: conn)
  case Nil then show ?case by simp
next
  case (Cons l ls)
  have step: "insert_invoice_item n l conn =
      conn\<lparr>invoice_items := invoice_items conn @ item_rows n (items_top conn) [l],
           invoice_items_seq := items_top conn + 1\<rparr>"
    by (simp add: insert_invoice_item_def Let_def items_top_def next_rowid_def)
  show ?case
    using Cons[of "insert_invoice_item n l conn"]
    by (cases "ls = []") (simp_all add: items_top_insert, simp_all add: step)
qed

subsection \<open>The outcomes of \<open>create_invoice\<close>\<close>

lemma totals_loop_first_missing:
  assumes "find (\<lambda>it. ps (product_id it) = None) its = Some it"
  shows "totals_loop ps its t acc =
           Inl (HTTPException 404 (''Product with ID '' @ str_int (product_id it) @ '' not found''))"
  using assms by (induction its arbitrary: t acc) (auto split: if_splits)

lemma calculate_invoice_totals_first_missing:
  assumes "find (\<lambda>it. products conn (product_id it) = None) its = Some it"
  shows "calculate_invoice_totals its conn =
           Inl (HTTPException 404 (''Product with ID '' @ str_int (product_id it) @ '' not found''))"
  using totals_loop_first_missing[OF assms] by (simp add: calculate_invoice_totals_def)

lemma create_invoice_client_missing:
  assumes "clients db (client_id req) = None"
  shows "create_invoice req db = (Inl (HTTPException 404 ''Client not found''), db)"
  using assms by (simp add: create_invoice_def create_invoice_body_def get_db_def route_def)

lemma create_invoice_product_missing:
  assumes "clients db (client_id req) \<noteq> None"
    and "find (\<lambda>it. products db (product_id it) = None) (items req) = Some it"
  shows "create_invoice req db =
           (Inl (HTTPException 404 (''Product with ID '' @ str_int (product_id it) @ '' not found'')), db)"
  using assms(1) calculate_invoice_totals_first_missing[OF assms(2)]
  by (auto simp: create_invoice_def create_invoice_body_def get_db_def route_def)

lemma sqlite3_unbound: "name_lookup ''sqlite3'' = Inl (NameError ''sqlite3'')"
  by (simp add: name_lookup_def module_names_def)

lemma create_invoice_duplicate:
  assumes "clients db (client_id req) \<noteq> None"
    and "\<forall>it\<in>set (items req). products db (product_id it) \<noteq> None"
    and "invoice_no req \<in> set (map inv_invoice_no (invoices db))"
  shows "create_invoice req db =
           (Inl (HTTPException 500
                  (''Database error: name '' @ [CHR 0x27] @ ''sqlite3'' @ [CHR 0x27] @
                   '' is not defined'')), db)"
  using assms(1,3) calculate_invoice_totals_all_found[OF assms(2)]
  by (auto simp: create_invoice_def create_invoice_body_def get_db_def route_def Let_def
      insert_invoice_def except_IntegrityError_def sqlite3_unbound database_error_def)

lemma create_invoice_success:
  assumes "clients db (client_id req) = Some c"
    and "\<forall>it\<in>set (items req). products db (product_id it) \<noteq> None"
    and "invoice_no req \<notin> set (map inv_invoice_no (invoices db))"
  shows "create_invoice req db =
           (let lines = priced_lines (products db) (items req);
                subtotal = foldl fadd 0 (map p_line_total lines);
                tax_amount = fmul subtotal (float_lit (10 / 100));
                total_amount = fadd subtotal tax_amount;
                invoice_id = next_rowid (invoices_seq db) (map inv_id (invoices db))
            in (Inr \<lparr>r_id = invoice_id, r_invoice_no = invoice_no req,
                      r_issue_date = issue_date req, r_due_date = due_date req,
                      r_client_name = c_name c, r_tax_amount = tax_amount,
                      r_total_amount = total_amount, r_items = map response_item lines\<rparr>,
                insert_invoice_items invoice_id lines
                  (db\<lparr>invoices := invoices db @
                         [\<lparr>inv_id = invoice_id, inv_invoice_no = invoice_no req,
                           inv_issue_date = issue_date req, inv_due_date = due_date req,
                           inv_client_id = client_id req, inv_tax_amount = tax_amount,
                           inv_total_amount = total_amount\<rparr>],
                       invoices_seq := invoice_id\<rparr>)))"
  using assms(1,3) calculate_invoice_totals_all_found[OF assms(2)]
  by (simp add: create_invoice_def create_invoice_body_def get_db_def route_def Let_def
      insert_invoice_def)

lemma create_invoice_Inr_conditions:
  assumes "fst (create_invoice req db) = Inr resp"
  shows "clients db (client_id req) \<noteq> None \<and>
         (\<forall>it\<in>set (items req). products db (product_id it) \<noteq> None) \<and>
         invoice_no req \<notin> set (map inv_invoice_no (invoices db))"
proof (intro conjI)
  show c: "clients db (client_id req) \<noteq> None"
    using assms create_invoice_client_missing[of db req]
    by (cases "clients db (client_id req)") auto
  show p: "\<forall>it\<in>set (items req). products db (product_id it) \<noteq> None"
  proof (rule ccontr)
    assume "\<not> ?thesis"
    then obtain it where "find (\<lambda>it. products db (product_id it) = None) (items req) = Some it"
      by (cases "find (\<lambda>it. products db (product_id it) = None) (items req)")
         (auto simp: find_None_iff)
    from create_invoice_product_missing[OF c this] assms show False by simp
  qed
  show "invoice_no req \<notin> set (map inv_invoice_no (invoices db))"
    using create_invoice_duplicate[OF c p] assms by auto
qed

subsection \<open>Evaluations on the seeded database\<close>

lemma create_test_invoice:
  "create_invoice test_invoice upgrade =
     (Inr \<lparr>r_id = 1, r_invoice_no = ''INV-001'', r_issue_date = Date 2023 10 27,
           r_due_date = Date 2023 11 27, r_client_name = ''Acme Corp'', r_tax_amount = 7,
           r_total_amount = 77,
           r_items =
             [\<lparr>ir_id = 0, ir_product_name = ''Widget A'', ir_quantity = 2, ir_unit_price = 10,
               ir_line_total = 20\<rparr>,
              \<lparr>ir_id = 0, ir_product_name = ''Gadget X'', ir_quantity = 1, ir_unit_price = 50,
               ir_line_total = 50\<rparr>]\<rparr>,
      after_test_invoice)"
  by (simp add: create_invoice_def create_invoice_body_def get_db_def route_def
      calculate_invoice_totals_def insert_invoice_def insert_invoice_item_def next_rowid_def
      response_item_def process_line_def test_invoice_def after_test_invoice_def upgrade_def
      seed_clients_def seed_products_def Let_def float_tenth example_floats)


text \<open>
  C2. A second request with the invoice number of a persisted invoice does not get the
  400 \<open>Invoice number already exists\<close>: the insert raises \<open>IntegrityError\<close>, the clause
  \<open>except sqlite3.IntegrityError\<close> raises \<open>NameError\<close> because the module never imports
  \<open>sqlite3\<close>, and the outer handler turns that into a 500. The store stays as the first
  creation left it. Shown on the request of the smoke test, sent twice to the seeded
  database.
\<close>

theorem duplicate_invoice_no_gives_500:
  "snd (create_invoice test_invoice upgrade) = after_test_invoice \<and>
   create_invoice test_invoice after_test_invoice =
     (Inl (HTTPException 500
            (''Database error: name '' @ [CHR 0x27] @ ''sqlite3'' @ [CHR 0x27] @
             '' is not defined'')),
      after_test_invoice)"
proof
  show "snd (create_invoice test_invoice upgrade) = after_test_invoice"
    by (simp add: create_test_invoice)
  have "clients after_test_invoice (client_id test_invoice) \<noteq> None"
    by (simp add: after_test_invoice_def upgrade_def seed_clients_def test_invoice_def)
  moreover have "\<forall>it\<in>set (items test_invoice).
      products after_test_invoice (product_id it) \<noteq> None"
    by (simp add: after_test_invoice_def upgrade_def seed_products_def test_invoice_def)
  moreover have "invoice_no test_invoice \<in> set (map inv_invoice_no (invoices after_test_invoice))"
    by (simp add: after_test_invoice_def test_invoice_def)
  ultimately show "create_invoice test_invoice after_test_invoice =
     (Inl (HTTPException 500
            (''Database error: name '' @ [CHR 0x27] @ ''sqlite3'' @ [CHR 0x27] @
             '' is not defined'')),
      after_test_invoice)"
    by (rule create_invoice_duplicate)
qed




text \<open>
  C4, as stated, fails: nothing in \<open>create_invoice\<close> or in the request model looks at
  the length of the item list. A request without items, sent to the seeded database, is
  accepted and an invoice without items is persisted.
\<close>

theorem empty_items_counterexample:
  "items (test_invoice\<lparr>items := []\<rparr>) = [] \<and>
   create_invoice (test_invoice\<lparr>items := []\<rparr>) upgrade =
     (Inr \<lparr>r_id = 1, r_invoice_no = ''INV-001'', r_issue_date = Date 2023 10 27,
           r_due_date = Date 2023 11 27, r_client_name = ''Acme Corp'', r_tax_amount = 0,
           r_total_amount = 0, r_items = []\<rparr>,
      upgrade
        \<lparr>invoices :=
           [\<lparr>inv_id = 1, inv_invoice_no = ''INV-001'', inv_issue_date = Date 2023 10 27,
             inv_due_date = Date 2023 11 27, inv_client_id = 1, inv_tax_amount = 0,
             inv_total_amount = 0\<rparr>],
         invoices_seq := 1\<rparr>)"
  by (simp add: create_invoice_def create_invoice_body_def get_db_def route_def
      calculate_invoice_totals_def insert_invoice_def next_rowid_def test_invoice_def
      upgrade_def seed_clients_def Let_def)

text \<open>
  C4, amended. A request with an empty item list, an existing client and an invoice
  number that no row holds is accepted: the response has tax 0.0, total 0.0 and no items,
  the invoice row is appended with the next rowid, and no item row is written.
\<close>

theorem empty_items_accepted:
  assumes "clients db (client_id req) = Some c"
    and "items req = []"
    and "invoice_no req \<notin> set (map inv_invoice_no (invoices db))"
  shows "create_invoice req db =
           (Inr \<lparr>r_id = next_rowid (invoices_seq db) (map inv_id (invoices db)),
                 r_invoice_no = invoice_no req, r_issue_date = issue_date req,
                 r_due_date = due_date req, r_client_name = c_name c, r_tax_amount = 0,
                 r_total_amount = 0, r_items = []\<rparr>,
            db\<lparr>invoices := invoices db @
                   [\<lparr>inv_id = next_rowid (invoices_seq db) (map inv_id (invoices db)),
                     inv_invoice_no = invoice_no req, inv_issue_date = issue_date req,
                     inv_due_date = due_date req, inv_client_id = client_id req,
                     inv_tax_amount = 0, inv_total_amount = 0\<rparr>],
                 invoices_seq := next_rowid (invoices_seq db) (map inv_id (invoices db))\<rparr>)"
  using create_invoice_success[OF assms(1) _ assms(3)] assms(2)
  by (simp add: Let_def priced_lines_def)

theorem empty_items_accepted_witness:
  "clients after_test_invoice 2 \<noteq> None \<and>
   ''INV-002'' \<notin> set (map inv_invoice_no (invoices after_test_invoice)) \<and>
   fst (create_invoice
         \<lparr>client_id = 2, invoice_no = ''INV-002'', issue_date = Date 2023 10 28,
          due_date = Date 2023 11 28, items = []\<rparr> after_test_invoice) =
     Inr \<lparr>r_id = 2, r_invoice_no = ''INV-002'', r_issue_date = Date 2023 10 28,
          r_due_date = Date 2023 11 28, r_client_name = ''Globex Inc'', r_tax_amount = 0,
          r_total_amount = 0, r_items = []\<rparr>"
  using empty_items_accepted
    [of after_test_invoice
        "\<lparr>client_id = 2, invoice_no = ''INV-002'', issue_date = Date 2023 10 28,
          due_date = Date 2023 11 28, items = []\<rparr>"
        "\<lparr>c_name = ''Globex Inc'', c_address = ''456 Global Way, World Town'',
          c_company_reg_no = ''REG654321''\<rparr>"]
  by (simp add: after_test_invoice_def upgrade_def seed_clients_def next_rowid_def)



subsection \<open>What a successful creation writes\<close>

lemma item_rows_fields:
  "map it_quantity (item_rows n k ls) = map p_quantity ls"
  "map it_unit_price (item_rows n k ls) = map p_unit_price ls"
  "map it_line_total (item_rows n k ls) = map p_line_total ls"
  "map it_product_id (item_rows n k ls) = map p_product_id ls"
  "map it_invoice_id (item_rows n k ls) = replicate (length ls) n"
  "length (item_rows n k ls) = length ls"
  by (induction ls arbitrary: k) simp_all

lemma item_rows_ids: "r \<in> set (item_rows n k ls) \<Longrightarrow> k < it_id r \<and> it_id r \<le> k + int (length ls)"
  by (induction ls arbitrary: k) (auto, fastforce+)

lemma priced_lines_fields:
  "map p_quantity (priced_lines ps its) = map quantity its"
  "map p_product_id (priced_lines ps its) = map product_id its"
  "length (priced_lines ps its) = length its"
  by (simp_all add: priced_lines_def process_line_def Let_def comp_def)

lemma invoice_items_insert_invoice_items:
  "invoice_items (insert_invoice_items n ls conn) =
     invoice_items conn @ item_rows n (items_top conn) ls"
  by (simp add: insert_invoice_items_eq)

lemma unchanged_by_insert_invoice_items:
  "clients (insert_invoice_items n ls conn) = clients conn"
  "products (insert_invoice_items n ls conn) = products conn"
  "invoices (insert_invoice_items n ls conn) = invoices conn"
  "invoices_seq (insert_invoice_items n ls conn) = invoices_seq conn"
  by (simp_all add: insert_invoice_items_eq)

lemma create_invoice_writes:
  assumes "create_invoice req db = (Inr resp, db')"
  shows "clients db' = clients db" "products db' = products db"
    "invoices db' = invoices db @
       [\<lparr>inv_id = r_id resp, inv_invoice_no = invoice_no req, inv_issue_date = issue_date req,
         inv_due_date = due_date req, inv_client_id = client_id req,
         inv_tax_amount = r_tax_amount resp, inv_total_amount = r_total_amount resp\<rparr>]"
    "invoices_seq db' = r_id resp"
    "r_id resp = next_rowid (invoices_seq db) (map inv_id (invoices db))"
    "invoice_items db' =
       invoice_items db @ item_rows (r_id resp) (items_top db) (priced_lines (products db) (items req))"
    "r_items resp = map response_item (priced_lines (products db) (items req))"
    "\<exists>c. clients db (client_id req) = Some c \<and> r_client_name resp = c_name c"
proof -
  from assms have ok: "fst (create_invoice req db) = Inr resp" by simp
  from create_invoice_Inr_conditions[OF ok] obtain c
    where c: "clients db (client_id req) = Some c"
      and p: "\<forall>it\<in>set (items req). products db (product_id it) \<noteq> None"
      and n: "invoice_no req \<notin> set (map inv_invoice_no (invoices db))"
    by auto
  note eq = create_invoice_success[OF c p n, unfolded assms Let_def, simplified]
  from eq have resp: "resp = \<lparr>r_id = next_rowid (invoices_seq db) (map inv_id (invoices db)),
      r_invoice_no = invoice_no req, r_issue_date = issue_date req, r_due_date = due_date req,
      r_client_name = c_name c,
      r_tax_amount = fmul (foldl fadd 0 (map p_line_total (priced_lines (products db) (items req))))
                       (float_lit (1 / 10)),
      r_total_amount = fadd (foldl fadd 0 (map p_line_total (priced_lines (products db) (items req))))
                        (fmul (foldl fadd 0 (map p_line_total (priced_lines (products db) (items req))))
                          (float_lit (1 / 10))),
      r_items = map response_item (priced_lines (products db) (items req))\<rparr>"
    by simp
  from eq have db': "db' = insert_invoice_items (next_rowid (invoices_seq db) (map inv_id (invoices db)))
      (priced_lines (products db) (items req))
      (db\<lparr>invoices := invoices db @
             [\<lparr>inv_id = next_rowid (invoices_seq db) (map inv_id (invoices db)),
               inv_invoice_no = invoice_no req, inv_issue_date = issue_date req,
               inv_due_date = due_date req, inv_client_id = client_id req,
               inv_tax_amount = r_tax_amount resp, inv_total_amount = r_total_amount resp\<rparr>],
           invoices_seq := next_rowid (invoices_seq db) (map inv_id (invoices db))\<rparr>)"
    by (simp add: resp)
  show "clients db' = clients db" "products db' = products db"
    by (simp_all add: db' unchanged_by_insert_invoice_items)
  show "r_id resp = next_rowid (invoices_seq db) (map inv_id (invoices db))"
    by (simp add: resp)
  then show "invoices db' = invoices db @
       [\<lparr>inv_id = r_id resp, inv_invoice_no = invoice_no req, inv_issue_date = issue_date req,
         inv_due_date = due_date req, inv_client_id = client_id req,
         inv_tax_amount = r_tax_amount resp, inv_total_amount = r_total_amount resp\<rparr>]"
    "invoices_seq db' = r_id resp"
    by (simp_all add: db' unchanged_by_insert_invoice_items)
  show "invoice_items db' =
       invoice_items db @ item_rows (r_id resp) (items_top db) (priced_lines (products db) (items req))"
    by (simp add: db' invoice_items_insert_invoice_items items_top_def resp)
  show "r_items resp = map response_item (priced_lines (products db) (items req))"
    by (simp add: resp)
  show "\<exists>c. clients db (client_id req) = Some c \<and> r_client_name resp = c_name c"
    using c by (simp add: resp)
qed




subsection \<open>Reading an invoice back\<close>

lemma get_invoice_unfold:
  "get_invoice n db =
     (case List.map_filter (header_row db) (filter (\<lambda>i. inv_id i = n) (invoices db)) of
        [] \<Rightarrow> (Inl (HTTPException 404 ''Invoice not found''), db)
      | (invoice, client) # _ \<Rightarrow>
          (Inr \<lparr>r_id = inv_id invoice, r_invoice_no = inv_invoice_no invoice,
                r_issue_date = inv_issue_date invoice, r_due_date = inv_due_date invoice,
                r_client_name = c_name client, r_tax_amount = inv_tax_amount invoice,
                r_total_amount = inv_total_amount invoice,
                r_items = List.map_filter (item_response db)
                            (filter (\<lambda>ii. it_invoice_id ii = n) (invoice_items db))\<rparr>,
           db))"
  by (simp add: get_invoice_def get_invoice_body_def get_db_def route_def
      split: list.splits prod.splits)

lemma read_back_ids:
  assumes "\<forall>it\<in>set its. products conn (product_id it) \<noteq> None"
  shows "map ir_id (List.map_filter (item_response conn)
                     (item_rows n k (priced_lines (products conn) its))) =
         map it_id (item_rows n k (priced_lines (products conn) its))"
  using assms
  by (induction its arbitrary: k)
     (auto simp: priced_lines_def process_line_def item_response_def Let_def)

lemma read_back_values:
  assumes "\<forall>it\<in>set its. products conn (product_id it) \<noteq> None"
  shows "map (\<lambda>x. x\<lparr>ir_id := 0\<rparr>)
           (List.map_filter (item_response conn)
              (item_rows n k (priced_lines (products conn) its))) =
         map response_item (priced_lines (products conn) its)"
  using assms
  by (induction its arbitrary: k)
     (auto simp: priced_lines_def process_line_def item_response_def response_item_def
        Let_def)

lemma filter_item_rows_same: "filter (\<lambda>ii. it_invoice_id ii = n) (item_rows n k ls) = item_rows n k ls"
  by (induction ls arbitrary: k) simp_all

lemma get_after_create:
  assumes owned: "\<forall>ii\<in>set (invoice_items db). it_invoice_id ii \<in> inv_id ` set (invoices db)"
    and created: "create_invoice req db = (Inr resp, db')"
  shows "get_invoice (r_id resp) db' =
           (Inr (resp\<lparr>r_items :=
                   List.map_filter (item_response db')
                     (item_rows (r_id resp) (items_top db)
                        (priced_lines (products db') (items req)))\<rparr>), db')"
proof -
  note w = create_invoice_writes[OF created]
  let ?row = "\<lparr>inv_id = r_id resp, inv_invoice_no = invoice_no req,
      inv_issue_date = issue_date req, inv_due_date = due_date req,
      inv_client_id = client_id req, inv_tax_amount = r_tax_amount resp,
      inv_total_amount = r_total_amount resp\<rparr>"
  from w(8) obtain c where c: "clients db (client_id req) = Some c" "r_client_name resp = c_name c"
    by blast
  have fresh: "\<forall>i\<in>set (invoices db). inv_id i \<noteq> r_id resp"
    using next_rowid_fresh[of _ "map inv_id (invoices db)" "invoices_seq db"] w(5) by fastforce
  then have "filter (\<lambda>i. inv_id i = r_id resp) (invoices db) = []"
    by (simp add: filter_empty_conv)
  then have header: "filter (\<lambda>i. inv_id i = r_id resp) (invoices db') = [?row]"
    by (simp add: w(3))
  have "\<forall>ii\<in>set (invoice_items db). it_invoice_id ii \<noteq> r_id resp"
    using owned fresh by fastforce
  then have "filter (\<lambda>ii. it_invoice_id ii = r_id resp) (invoice_items db) = []"
    by (simp add: filter_empty_conv)
  then have rows: "filter (\<lambda>ii. it_invoice_id ii = r_id resp) (invoice_items db') =
      item_rows (r_id resp) (items_top db) (priced_lines (products db') (items req))"
    by (simp add: w(6) w(2) filter_item_rows_same)
  have "r_invoice_no resp = invoice_no req \<and> r_issue_date resp = issue_date req \<and>
        r_due_date resp = due_date req"
  proof -
    from created have "fst (create_invoice req db) = Inr resp" by simp
    from create_invoice_Inr_conditions[OF this] c(1)
    show ?thesis
      using create_invoice_success[of db req c] created by (auto simp: Let_def)
  qed
  then show ?thesis
    using c by (simp add: get_invoice_unfold header rows header_row_def w(1))
qed

lemma get_test_invoice:
  "get_invoice 1 after_test_invoice =
     (Inr \<lparr>r_id = 1, r_invoice_no = ''INV-001'', r_issue_date = Date 2023 10 27,
           r_due_date = Date 2023 11 27, r_client_name = ''Acme Corp'', r_tax_amount = 7,
           r_total_amount = 77,
           r_items =
             [\<lparr>ir_id = 1, ir_product_name = ''Widget A'', ir_quantity = 2, ir_unit_price = 10,
               ir_line_total = 20\<rparr>,
              \<lparr>ir_id = 2, ir_product_name = ''Gadget X'', ir_quantity = 1, ir_unit_price = 50,
               ir_line_total = 50\<rparr>]\<rparr>,
      after_test_invoice)"
  by (simp add: get_invoice_unfold after_test_invoice_def upgrade_def seed_clients_def
      seed_products_def header_row_def item_response_def example_floats)

lemma create_second_invoice:
  "create_invoice second_invoice after_test_invoice =
     (Inr \<lparr>r_id = 2, r_invoice_no = ''INV-002'', r_issue_date = Date 2023 10 28,
           r_due_date = Date 2023 11 28, r_client_name = ''Globex Inc'', r_tax_amount = 15,
           r_total_amount = 165,
           r_items =
             [\<lparr>ir_id = 0, ir_product_name = ''Service Hour'', ir_quantity = 1,
               ir_unit_price = 150, ir_line_total = 150\<rparr>]\<rparr>,
      after_second_invoice)"
  by (simp add: create_invoice_def create_invoice_body_def get_db_def route_def
      calculate_invoice_totals_def insert_invoice_def insert_invoice_item_def next_rowid_def
      response_item_def process_line_def second_invoice_def after_second_invoice_def
      after_test_invoice_def upgrade_def seed_clients_def seed_products_def Let_def
      float_tenth example_floats second_floats)

lemma get_second_invoice:
  "get_invoice 2 after_second_invoice =
     (Inr \<lparr>r_id = 2, r_invoice_no = ''INV-002'', r_issue_date = Date 2023 10 28,
           r_due_date = Date 2023 11 28, r_client_name = ''Globex Inc'', r_tax_amount = 15,
           r_total_amount = 165,
           r_items =
             [\<lparr>ir_id = 3, ir_product_name = ''Service Hour'', ir_quantity = 1,
               ir_unit_price = 150, ir_line_total = 150\<rparr>]\<rparr>,
      after_second_invoice)"
  by (simp add: get_invoice_unfold after_second_invoice_def after_test_invoice_def upgrade_def
      seed_clients_def seed_products_def header_row_def item_response_def second_floats)

lemma schema_ok_upgrade: "schema_ok upgrade"
  by (simp add: schema_ok_def upgrade_def)

text \<open>
  C10. Take a database in which every item row belongs to an invoice row and the
  counter of the items table is not negative, as the schema and \<open>AUTOINCREMENT\<close> have
  it. After a successful \<open>create_invoice\<close>
  every item of the response has the identifier 0. \<open>get_invoice\<close> on the new invoice
  succeeds and returns the same header and, item by item, the same name, quantity, unit
  price and line total, but with the rowids that the insert assigned to the new rows of
  \<open>invoice_items\<close>, which are positive. So each item differs in its identifier between
  the two responses, and the responses differ whenever the invoice has an item.
\<close>

theorem create_response_item_ids:
  assumes "\<forall>ii\<in>set (invoice_items db). it_invoice_id ii \<in> inv_id ` set (invoices db)"
    and "0 \<le> invoice_items_seq db"
    and "create_invoice req db = (Inr resp, db')"
  shows "(\<forall>x\<in>set (r_items resp). ir_id x = 0) \<and>
         (\<exists>got. get_invoice (r_id resp) db' = (Inr got, db') \<and>
            got\<lparr>r_items := r_items resp\<rparr> = resp \<and>
            map (\<lambda>x. x\<lparr>ir_id := 0\<rparr>) (r_items got) = r_items resp \<and>
            map ir_id (r_items got) =
              map it_id (drop (length (invoice_items db)) (invoice_items db')) \<and>
            (\<forall>x\<in>set (r_items got). 0 < ir_id x) \<and>
            (items req \<noteq> [] \<longrightarrow> got \<noteq> resp))"
proof
  note w = create_invoice_writes[OF assms(3)]
  show zero: "\<forall>x\<in>set (r_items resp). ir_id x = 0"
    by (auto simp: w(7) response_item_def)
  from assms(3) have "fst (create_invoice req db) = Inr resp"
    by simp
  from create_invoice_Inr_conditions[OF this]
  have found: "\<forall>it\<in>set (items req). products db' (product_id it) \<noteq> None"
    by (simp add: w(2))
  let ?rows = "item_rows (r_id resp) (items_top db) (priced_lines (products db') (items req))"
  let ?got = "resp\<lparr>r_items := List.map_filter (item_response db') ?rows\<rparr>"
  have get: "get_invoice (r_id resp) db' = (Inr ?got, db')"
    by (rule get_after_create[OF assms(1,3)])
  have vals: "map (\<lambda>x. x\<lparr>ir_id := 0\<rparr>) (r_items ?got) = r_items resp"
    using read_back_values[OF found] by (simp add: w(7) w(2))
  have ids: "map ir_id (r_items ?got) = map it_id ?rows"
    using read_back_ids[OF found] by simp
  have new: "drop (length (invoice_items db)) (invoice_items db') = ?rows"
    by (simp add: w(6) w(2))
  have "0 \<le> items_top db"
    using assms(2) fold_max_ge_init[of "invoice_items_seq db" "map it_id (invoice_items db)"]
    by (simp add: items_top_def)
  then have "\<forall>r\<in>set ?rows. 0 < it_id r"
    using item_rows_ids[of _ "r_id resp" "items_top db"] by fastforce
  then have "\<forall>i\<in>set (map it_id ?rows). 0 < i"
    by simp
  then have "\<forall>i\<in>set (map ir_id (r_items ?got)). 0 < i"
    by (simp only: ids)
  then have positive: "\<forall>x\<in>set (r_items ?got). 0 < ir_id x"
    by simp
  have differ: "?got \<noteq> resp" if "items req \<noteq> []"
  proof
    assume same: "?got = resp"
    have "length (r_items ?got) = length (items req)"
      using arg_cong[OF vals, of length] by (simp add: w(7) priced_lines_fields)
    with that obtain x where x: "x \<in> set (r_items ?got)"
      by (cases "r_items ?got") auto
    then have "0 < ir_id x"
      using positive by blast
    moreover have "ir_id x = 0"
      using x zero same by metis
    ultimately show False
      by simp
  qed
  show "\<exists>got. get_invoice (r_id resp) db' = (Inr got, db') \<and>
            got\<lparr>r_items := r_items resp\<rparr> = resp \<and>
            map (\<lambda>x. x\<lparr>ir_id := 0\<rparr>) (r_items got) = r_items resp \<and>
            map ir_id (r_items got) =
              map it_id (drop (length (invoice_items db)) (invoice_items db')) \<and>
            (\<forall>x\<in>set (r_items got). 0 < ir_id x) \<and>
            (items req \<noteq> [] \<longrightarrow> got \<noteq> resp)"
  proof (intro exI[of _ ?got] conjI impI)
    show "?got\<lparr>r_items := r_items resp\<rparr> = resp" by simp
    show "map ir_id (r_items ?got) =
        map it_id (drop (length (invoice_items db)) (invoice_items db'))"
      by (simp only: ids new)
    show "get_invoice (r_id resp) db' = (Inr ?got, db')" by (fact get)
    show "map (\<lambda>x. x\<lparr>ir_id := 0\<rparr>) (r_items ?got) = r_items resp" by (fact vals)
    show "\<forall>x\<in>set (r_items ?got). 0 < ir_id x" by (fact positive)
    show "?got \<noteq> resp" if "items req \<noteq> []" using that by (rule differ)
  qed
qed

theorem create_response_item_ids_witness:
  "map it_invoice_id (invoice_items after_test_invoice) = [1, 1] \<and>
   map inv_id (invoices after_test_invoice) = [1] \<and>
   invoice_items_seq after_test_invoice = 2 \<and>
   map ir_id (r_items (projr (fst (create_invoice second_invoice after_test_invoice)))) = [0] \<and>
   map ir_id
     (r_items (projr (fst (get_invoice 2
        (snd (create_invoice second_invoice after_test_invoice)))))) = [3]"
proof -
  have owned: "\<forall>ii\<in>set (invoice_items after_test_invoice).
      it_invoice_id ii \<in> inv_id ` set (invoices after_test_invoice)"
    by (simp add: after_test_invoice_def)
  have counter: "0 \<le> invoice_items_seq after_test_invoice"
    by (simp add: after_test_invoice_def)
  from create_response_item_ids [OF owned counter create_second_invoice]
  show ?thesis
    by (simp add: create_second_invoice get_second_invoice)
       (simp add: after_test_invoice_def)
qed

subsection \<open>Deleting an invoice\<close>

lemma delete_invoice_unfold:
  "delete_invoice n db =
     (if filter (\<lambda>i. inv_id i = n) (invoices db) = []
      then (Inl (HTTPException 404 ''Invoice not found''), db)
      else (Inr (),
            db\<lparr>invoice_items := filter (\<lambda>ii. it_invoice_id ii \<noteq> n) (invoice_items db),
                invoices := filter (\<lambda>i. inv_id i \<noteq> n) (invoices db)\<rparr>))"
  by (simp add: delete_invoice_def delete_invoice_body_def get_db_def route_def Let_def)




subsection \<open>What \<open>get_invoice\<close> depends on\<close>

lemma item_response_price_update:
  assumes "products db pid = Some p"
  shows "item_response (db\<lparr>products := (products db)(pid \<mapsto> p\<lparr>pr_price := x\<rparr>)\<rparr>) =
         item_response db"
  using assms by (auto simp: item_response_def fun_eq_iff)

lemma item_response_deleted:
  assumes "products db' = (products db)(pid := None)"
  shows "item_response db' ii =
           (if it_product_id ii = pid then None else item_response db ii)"
  using assms by (simp add: item_response_def)

lemma map_filter_item_response_deleted:
  assumes "products db' = (products db)(pid := None)"
  shows "List.map_filter (item_response db') rows =
         List.map_filter (item_response db) (filter (\<lambda>ii. it_product_id ii \<noteq> pid) rows)"
  by (induction rows) (simp_all add: item_response_deleted[OF assms] split: option.splits)

text \<open>
  C9, as stated, fails for the deletion of a product row: the item query of
  \<open>get_invoice\<close> joins \<open>invoice_items\<close> with \<open>products\<close>, so the items of a product
  whose row is gone are no longer returned. After the invoice of the smoke test is
  created and the row of product 1 is deleted, \<open>get_invoice\<close> returns one item instead of
  two.
\<close>

theorem deleted_product_counterexample:
  "snd (create_invoice test_invoice upgrade) = after_test_invoice \<and>
   length (r_items (projr (fst (get_invoice 1 after_test_invoice)))) = 2 \<and>
   fst (get_invoice 1
         (after_test_invoice\<lparr>products := (products after_test_invoice)(1 := None)\<rparr>)) =
     Inr \<lparr>r_id = 1, r_invoice_no = ''INV-001'', r_issue_date = Date 2023 10 27,
          r_due_date = Date 2023 11 27, r_client_name = ''Acme Corp'', r_tax_amount = 7,
          r_total_amount = 77,
          r_items =
            [\<lparr>ir_id = 2, ir_product_name = ''Gadget X'', ir_quantity = 1, ir_unit_price = 50,
              ir_line_total = 50\<rparr>]\<rparr>"
  by (simp add: create_test_invoice get_test_invoice)
     (simp add: get_invoice_unfold after_test_invoice_def upgrade_def seed_clients_def
        seed_products_def header_row_def item_response_def example_floats)

lemma in_set_map_filter: "y \<in> set (List.map_filter f xs) \<longleftrightarrow> (\<exists>x\<in>set xs. f x = Some y)"
  by (induction xs) (auto split: option.splits)

text \<open>
  C9, amended. For every database and invoice identifier:
  \<^item> a change of the price in a product row leaves the result of \<open>get_invoice\<close> as it was;
  \<^item> when \<open>get_invoice\<close> returns an invoice, its tax and total are those of the stored
    invoice row, and every returned item has the identifier, quantity, unit price and
    line total of a stored item row of that invoice whose product row exists;
  \<^item> after the row of a product is deleted, \<open>get_invoice\<close> returns the same header and
    the items of the invoice that belong to the other products.
\<close>

theorem get_invoice_reads_stored_rows:
  "(products db pid = Some p \<longrightarrow>
      fst (get_invoice n (db\<lparr>products := (products db)(pid \<mapsto> p\<lparr>pr_price := x\<rparr>)\<rparr>)) =
      fst (get_invoice n db)) \<and>
   (fst (get_invoice n db) = Inr got \<longrightarrow>
      (\<exists>i\<in>set (invoices db).
          inv_id i = n \<and> r_tax_amount got = inv_tax_amount i \<and>
          r_total_amount got = inv_total_amount i) \<and>
      (\<forall>x\<in>set (r_items got).
          \<exists>ii\<in>set (invoice_items db).
            it_invoice_id ii = n \<and> products db (it_product_id ii) \<noteq> None \<and>
            ir_id x = it_id ii \<and> ir_quantity x = it_quantity ii \<and>
            ir_unit_price x = it_unit_price ii \<and> ir_line_total x = it_line_total ii) \<and>
      fst (get_invoice n (db\<lparr>products := (products db)(pid := None)\<rparr>)) =
        Inr (got\<lparr>r_items :=
                  List.map_filter (item_response db)
                    (filter (\<lambda>ii. it_invoice_id ii = n \<and> it_product_id ii \<noteq> pid)
                       (invoice_items db))\<rparr>))"
proof (intro conjI impI)
  assume "products db pid = Some p"
  let ?db' = "db\<lparr>products := (products db)(pid \<mapsto> p\<lparr>pr_price := x\<rparr>)\<rparr>"
  have "header_row ?db' = header_row db"
    by (simp add: header_row_def fun_eq_iff)
  with item_response_price_update[OF \<open>products db pid = Some p\<close>, of x]
  show "fst (get_invoice n ?db') = fst (get_invoice n db)"
    by (simp add: get_invoice_unfold[of n ?db'] get_invoice_unfold[of n db]
        split: list.splits prod.splits)
next
  assume got: "fst (get_invoice n db) = Inr got"
  then obtain i c rest
    where rows: "List.map_filter (header_row db) (filter (\<lambda>i. inv_id i = n) (invoices db)) =
        (i, c) # rest"
    by (auto simp: get_invoice_unfold split: list.splits)
  then have "(i, c) \<in> set (List.map_filter (header_row db)
      (filter (\<lambda>i. inv_id i = n) (invoices db)))"
    by simp
  then have i: "i \<in> set (invoices db)" "inv_id i = n"
    by (auto simp: in_set_map_filter header_row_def split: option.splits)
  from got rows have got_eq: "got =
      \<lparr>r_id = inv_id i, r_invoice_no = inv_invoice_no i, r_issue_date = inv_issue_date i,
       r_due_date = inv_due_date i, r_client_name = c_name c, r_tax_amount = inv_tax_amount i,
       r_total_amount = inv_total_amount i,
       r_items = List.map_filter (item_response db)
                   (filter (\<lambda>ii. it_invoice_id ii = n) (invoice_items db))\<rparr>"
    by (simp add: get_invoice_unfold)
  show "\<exists>i\<in>set (invoices db).
          inv_id i = n \<and> r_tax_amount got = inv_tax_amount i \<and>
          r_total_amount got = inv_total_amount i"
    using i by (auto simp: got_eq)
  show "\<forall>x\<in>set (r_items got).
          \<exists>ii\<in>set (invoice_items db).
            it_invoice_id ii = n \<and> products db (it_product_id ii) \<noteq> None \<and>
            ir_id x = it_id ii \<and> ir_quantity x = it_quantity ii \<and>
            ir_unit_price x = it_unit_price ii \<and> ir_line_total x = it_line_total ii"
    by (fastforce simp: got_eq in_set_map_filter item_response_def split: option.splits)
  let ?db' = "db\<lparr>products := (products db)(pid := None)\<rparr>"
  have header: "header_row ?db' = header_row db"
    by (simp add: header_row_def fun_eq_iff)
  have "List.map_filter (item_response ?db')
          (filter (\<lambda>ii. it_invoice_id ii = n) (invoice_items db)) =
        List.map_filter (item_response db)
          (filter (\<lambda>ii. it_invoice_id ii = n \<and> it_product_id ii \<noteq> pid) (invoice_items db))"
    by (subst map_filter_item_response_deleted[of ?db' db pid]) (simp_all add: conj_commute)
  then show "fst (get_invoice n ?db') =
        Inr (got\<lparr>r_items :=
                  List.map_filter (item_response db)
                    (filter (\<lambda>ii. it_invoice_id ii = n \<and> it_product_id ii \<noteq> pid)
                       (invoice_items db))\<rparr>)"
    using rows by (simp add: get_invoice_unfold[of n ?db'] header got_eq)
qed

theorem get_invoice_reads_stored_rows_witness:
  "products after_test_invoice 1 = Some \<lparr>pr_name = ''Widget A'', pr_price = 10\<rparr> \<and>
   fst (get_invoice 1
         (after_test_invoice
            \<lparr>products := (products after_test_invoice)
               (1 \<mapsto> \<lparr>pr_name = ''Widget A'', pr_price = 25 / 2\<rparr>)\<rparr>)) =
     Inr \<lparr>r_id = 1, r_invoice_no = ''INV-001'', r_issue_date = Date 2023 10 27,
          r_due_date = Date 2023 11 27, r_client_name = ''Acme Corp'', r_tax_amount = 7,
          r_total_amount = 77,
          r_items =
            [\<lparr>ir_id = 1, ir_product_name = ''Widget A'', ir_quantity = 2, ir_unit_price = 10,
              ir_line_total = 20\<rparr>,
             \<lparr>ir_id = 2, ir_product_name = ''Gadget X'', ir_quantity = 1, ir_unit_price = 50,
              ir_line_total = 50\<rparr>]\<rparr>"
proof -
  have row: "products after_test_invoice 1 = Some \<lparr>pr_name = ''Widget A'', pr_price = 10\<rparr>"
    by (simp add: after_test_invoice_def upgrade_def seed_products_def example_floats)
  from get_invoice_reads_stored_rows
         [of after_test_invoice 1 "\<lparr>pr_name = ''Widget A'', pr_price = 10\<rparr>" 1 "25 / 2",
          THEN conjunct1] row
  show ?thesis
    by (simp add: get_test_invoice)
qed

subsection \<open>The routes keep the schema\<close>

lemma distinct_item_rows: "distinct (map it_id (item_rows n k ls))"
proof (induction ls arbitrary: k)
  case Nil
  show ?case by simp
next
  case (Cons l ls)
  have "k + 1 \<notin> it_id ` set (item_rows n (k + 1) ls)"
    using item_rows_ids[of _ n "k + 1" ls] by fastforce
  with Cons show ?case by simp
qed

lemma items_top_bounds:
  "invoice_items_seq db \<le> items_top db"
  "ii \<in> set (invoice_items db) \<Longrightarrow> it_id ii \<le> items_top db"
  using fold_max_ge_init[of "invoice_items_seq db" "map it_id (invoice_items db)"]
    fold_max_ge_elem[of "it_id ii" "map it_id (invoice_items db)" "invoice_items_seq db"]
  by (simp_all add: items_top_def)

lemma create_invoice_Inl_unchanged:
  "fst (create_invoice req db) = Inl e \<Longrightarrow> snd (create_invoice req db) = db"
  by (auto simp: create_invoice_def get_db_def route_def split: sum.splits prod.splits)

lemma invoice_items_seq_after_create:
  assumes "create_invoice req db = (Inr resp, db')"
  shows "invoice_items_seq db' =
           (if items req = [] then invoice_items_seq db
            else items_top db + int (length (items req)))"
proof -
  from assms have "fst (create_invoice req db) = Inr resp" by simp
  from create_invoice_Inr_conditions[OF this] obtain c
    where c: "clients db (client_id req) = Some c"
      and p: "\<forall>it\<in>set (items req). products db (product_id it) \<noteq> None"
      and n: "invoice_no req \<notin> set (map inv_invoice_no (invoices db))"
    by auto
  have "priced_lines (products db) (items req) = [] \<longleftrightarrow> items req = []"
    by (simp add: priced_lines_def)
  with create_invoice_success[OF c p n] assms show ?thesis
    by (auto simp: Let_def insert_invoice_items_eq items_top_def priced_lines_fields)
qed

lemma schema_ok_create_invoice:
  assumes ok: "schema_ok db"
  shows "schema_ok (snd (create_invoice req db))"
proof (cases "fst (create_invoice req db)")
  case (Inl e)
  with ok show ?thesis
    by (simp add: create_invoice_Inl_unchanged)
next
  case (Inr resp)
  obtain db' where created: "create_invoice req db = (Inr resp, db')"
    using Inr by (cases "create_invoice req db") simp
  note w = create_invoice_writes[OF created]
  note cond = create_invoice_Inr_conditions[OF Inr]
  let ?lines = "priced_lines (products db) (items req)"
  let ?rows = "item_rows (r_id resp) (items_top db) ?lines"
  have fresh: "\<forall>i\<in>set (invoices db). inv_id i < r_id resp"
    using next_rowid_fresh[of _ "map inv_id (invoices db)" "invoices_seq db"] w(5) by fastforce
  have seq: "invoices_seq db < r_id resp"
    using next_rowid_gt_seq[of "invoices_seq db" "map inv_id (invoices db)"] w(5) by simp
  have 1: "distinct (map inv_id (invoices db'))"
    using ok fresh by (fastforce simp: schema_ok_def w(3))
  have 2: "distinct (map inv_invoice_no (invoices db'))"
    using ok cond by (simp add: schema_ok_def w(3))
  have 3: "0 \<le> invoices_seq db'"
    using ok seq by (simp add: schema_ok_def w(4))
  have 4: "\<forall>i\<in>set (invoices db').
      inv_id i \<le> invoices_seq db' \<and> clients db' (inv_client_id i) \<noteq> None"
    using ok fresh cond by (fastforce simp: schema_ok_def w(1) w(3) w(4))
  have new_ids: "\<forall>r\<in>set ?rows. items_top db < it_id r \<and>
      it_id r \<le> items_top db + int (length (items req))"
    using item_rows_ids[of _ "r_id resp" "items_top db" ?lines]
    by (simp add: priced_lines_fields)
  have 5: "distinct (map it_id (invoice_items db'))"
  proof -
    have "it_id ` set (invoice_items db) \<inter> it_id ` set ?rows = {}"
      using new_ids items_top_bounds(2)[of _ db] by fastforce
    with ok show ?thesis
      by (simp add: schema_ok_def w(6) distinct_item_rows)
  qed
  have seq': "invoice_items_seq db' =
      (if items req = [] then invoice_items_seq db
       else items_top db + int (length (items req)))"
    by (rule invoice_items_seq_after_create[OF created])
  have 6: "0 \<le> invoice_items_seq db'"
    using ok items_top_bounds(1)[of db] by (simp add: schema_ok_def seq')
  have rows_nil: "?rows = []" if "items req = []"
    using that by (simp add: priced_lines_def)
  have 7: "\<forall>ii\<in>set (invoice_items db').
      it_id ii \<le> invoice_items_seq db' \<and>
      it_invoice_id ii \<in> inv_id ` set (invoices db') \<and>
      products db' (it_product_id ii) \<noteq> None"
  proof
    fix ii assume "ii \<in> set (invoice_items db')"
    then consider (old) "ii \<in> set (invoice_items db)" | (new) "ii \<in> set ?rows"
      by (auto simp: w(6))
    then show "it_id ii \<le> invoice_items_seq db' \<and>
      it_invoice_id ii \<in> inv_id ` set (invoices db') \<and>
      products db' (it_product_id ii) \<noteq> None"
    proof cases
      case old
      with ok have "it_id ii \<le> invoice_items_seq db"
        and "it_invoice_id ii \<in> inv_id ` set (invoices db)"
        and "products db (it_product_id ii) \<noteq> None"
        by (auto simp: schema_ok_def)
      moreover have "invoice_items_seq db \<le> invoice_items_seq db'"
        using items_top_bounds(1)[of db] by (simp add: seq')
      ultimately show ?thesis
        by (auto simp: w(2) w(3))
    next
      case new
      then have ne: "items req \<noteq> []"
        using rows_nil by auto
      from new new_ids have "it_id ii \<le> invoice_items_seq db'"
        by (simp add: seq' ne)
      moreover have "it_invoice_id ii = r_id resp"
        using new item_rows_fields(5)[of "r_id resp" "items_top db" ?lines]
        by (metis in_set_replicate set_map imageI)
      moreover have "it_product_id ii \<in> set (map product_id (items req))"
        using new item_rows_fields(4)[of "r_id resp" "items_top db" ?lines]
          priced_lines_fields(2)[of "products db" "items req"]
        by (metis set_map imageI)
      then have "products db (it_product_id ii) \<noteq> None"
        using cond by auto
      ultimately show ?thesis
        by (simp add: w(2) w(3))
    qed
  qed
  from 1 2 3 4 5 6 7 have "schema_ok db'"
    unfolding schema_ok_def by blast
  then show ?thesis
    by (simp add: created)
qed

lemma schema_ok_delete_invoice:
  assumes ok: "schema_ok db"
  shows "schema_ok (snd (delete_invoice n db))"
proof (cases "filter (\<lambda>i. inv_id i = n) (invoices db) = []")
  case True
  with ok show ?thesis
    by (simp add: delete_invoice_unfold)
next
  case False
  have "inv_id ` {i \<in> set (invoices db). inv_id i \<noteq> n} = inv_id ` set (invoices db) - {n}"
    by auto
  with ok False show ?thesis
    by (auto simp: delete_invoice_unfold schema_ok_def distinct_map_filter)
qed

lemma reachable_schema_ok: "reachable db \<Longrightarrow> schema_ok db"
proof (induction rule: reachable.induct)
  case seeded
  show ?case by (rule schema_ok_upgrade)
next
  case (created db req)
  then show ?case by (simp add: schema_ok_create_invoice)
next
  case (listed db)
  then show ?case by (simp add: list_invoices_def get_db_def route_def)
next
  case (fetched db n)
  then show ?case by (simp add: get_invoice_unfold split: list.splits prod.splits)
next
  case (deleted db n)
  then show ?case by (simp add: schema_ok_delete_invoice)
qed

text \<open>
  So the conditions under which the properties of \<open>list_invoices\<close> and of reading a
  new invoice back are stated hold in every database that the routes reach.
\<close>

lemma reachable_conditions:
  assumes "reachable db"
  shows "distinct (map inv_id (invoices db))"
    and "\<forall>i\<in>set (invoices db). clients db (inv_client_id i) \<noteq> None"
    and "\<forall>ii\<in>set (invoice_items db). it_invoice_id ii \<in> inv_id ` set (invoices db)"
    and "0 \<le> invoice_items_seq db"
  using reachable_schema_ok[OF assms] by (simp_all add: schema_ok_def)

subsection \<open>Listing invoices\<close>

lemma list_invoices_unfold:
  "list_invoices db =
     (Inr (List.map_filter (list_row db) (sort_key (\<lambda>i. - inv_id i) (invoices db))), db)"
  by (simp add: list_invoices_def get_db_def route_def)

lemma map_filter_all_Some:
  "\<forall>x\<in>set xs. f x \<noteq> None \<Longrightarrow> List.map_filter f xs = map (\<lambda>x. the (f x)) xs"
  by (induction xs) auto

lemma map_filter_map: "List.map_filter f (map g xs) = List.map_filter (\<lambda>x. f (g x)) xs"
  by (induction xs) (auto split: option.splits)

lemma descending_if_negated_sorted:
  "sorted (map (\<lambda>x. - x) zs) \<Longrightarrow> distinct zs \<Longrightarrow> sorted_wrt (\<lambda>a b. b < a) (zs :: int list)"
proof (induction zs)
  case Nil
  show ?case by simp
next
  case (Cons a zs)
  have "z < a" if "z \<in> set zs" for z
  proof -
    from Cons.prems(1) that have "z \<le> a" by auto
    moreover from Cons.prems(2) that have "z \<noteq> a" by auto
    ultimately show ?thesis by simp
  qed
  with Cons show ?case by simp
qed

lemma insort_key_map:
  assumes "\<And>x. k (g x) = k x"
  shows "insort_key k (g x) (map g ys) = map g (insort_key k x ys)"
  by (induction ys) (simp_all add: assms)

lemma sort_key_map:
  assumes "\<And>x. k (g x) = k x"
  shows "sort_key k (map g xs) = map g (sort_key k xs)"
  by (induction xs) (simp_all add: insort_key_map[of k g, OF assms])

lemma list_row_l_id: "list_row db i = Some r \<Longrightarrow> l_id r = inv_id i"
  by (auto simp: list_row_def split: option.splits)

text \<open>
  C7. Take a database in which the identifiers of the invoice rows are distinct and
  every invoice row references a client row, as the schema has it. \<open>list_invoices\<close>
  returns one summary for each invoice row: as many summaries as rows, with the
  identifiers of the rows, in strictly descending order of identifier. Each summary holds the number, the dates and
  the total of its invoice row and the name of the client that the row references. A
  summary has no field for items or tax, and the result is the same whatever the items
  table holds and whatever the tax amounts of the invoice rows are.
\<close>

theorem list_invoices_summaries:
  assumes "distinct (map inv_id (invoices db))"
    and "\<forall>i\<in>set (invoices db). clients db (inv_client_id i) \<noteq> None"
  shows "\<exists>rows.
           list_invoices db = (Inr rows, db) \<and>
           length rows = length (invoices db) \<and>
           set (map l_id rows) = set (map inv_id (invoices db)) \<and>
           sorted_wrt (\<lambda>a b. b < a) (map l_id rows) \<and>
           (\<forall>r\<in>set rows. \<exists>i\<in>set (invoices db). \<exists>c.
               clients db (inv_client_id i) = Some c \<and>
               r = \<lparr>l_id = inv_id i, l_invoice_no = inv_invoice_no i,
                    l_issue_date = inv_issue_date i, l_due_date = inv_due_date i,
                    l_client_name = c_name c, l_total_amount = inv_total_amount i\<rparr>) \<and>
           (\<forall>its seq t.
               fst (list_invoices
                     (db\<lparr>invoice_items := its, invoice_items_seq := seq,
                         invoices := map (\<lambda>i. i\<lparr>inv_tax_amount := t i\<rparr>) (invoices db)\<rparr>)) =
               Inr rows)"
proof -
  let ?sorted = "sort_key (\<lambda>i. - inv_id i) (invoices db)"
  let ?rows = "List.map_filter (list_row db) ?sorted"
  have clients: "\<forall>i\<in>set ?sorted. list_row db i \<noteq> None"
    using assms(2) by (auto simp: list_row_def)
  have rows: "?rows = map (\<lambda>i. the (list_row db i)) ?sorted"
    by (rule map_filter_all_Some[OF clients])
  have ids: "map l_id ?rows = map inv_id ?sorted"
    using clients by (auto simp: rows list_row_def split: option.splits)
  have "distinct (map inv_id ?sorted)"
    using assms(1) by (simp add: distinct_map)
  moreover have "sorted (map (\<lambda>x. - x) (map inv_id ?sorted))"
    using sorted_sort_key[of "\<lambda>i. - inv_id i" "invoices db"] by (simp add: comp_def)
  ultimately have order: "sorted_wrt (\<lambda>a b. b < a) (map l_id ?rows)"
    by (simp only: ids descending_if_negated_sorted)
  have content: "\<forall>r\<in>set ?rows. \<exists>i\<in>set (invoices db). \<exists>c.
      clients db (inv_client_id i) = Some c \<and>
      r = \<lparr>l_id = inv_id i, l_invoice_no = inv_invoice_no i,
           l_issue_date = inv_issue_date i, l_due_date = inv_due_date i,
           l_client_name = c_name c, l_total_amount = inv_total_amount i\<rparr>"
    by (fastforce simp: in_set_map_filter list_row_def split: option.splits)
  have frame: "fst (list_invoices
      (db\<lparr>invoice_items := its, invoice_items_seq := seq,
          invoices := map (\<lambda>i. i\<lparr>inv_tax_amount := t i\<rparr>) (invoices db)\<rparr>)) = Inr ?rows"
    for its seq t
  proof -
    let ?db' = "db\<lparr>invoice_items := its, invoice_items_seq := seq,
      invoices := map (\<lambda>i. i\<lparr>inv_tax_amount := t i\<rparr>) (invoices db)\<rparr>"
    have "sort_key (\<lambda>i. - inv_id i) (map (\<lambda>i. i\<lparr>inv_tax_amount := t i\<rparr>) (invoices db)) =
        map (\<lambda>i. i\<lparr>inv_tax_amount := t i\<rparr>) ?sorted"
      by (rule sort_key_map) simp
    moreover have "list_row ?db' (i\<lparr>inv_tax_amount := t i\<rparr>) = list_row db i" for i
      by (simp add: list_row_def split: option.splits)
    ultimately show ?thesis
      by (simp add: list_invoices_unfold map_filter_map)
  qed
  have "list_invoices db = (Inr ?rows, db)"
    by (rule list_invoices_unfold)
  moreover have "length ?rows = length (invoices db)"
    by (simp add: rows)
  moreover have "set (map l_id ?rows) = set (map inv_id (invoices db))"
    by (simp only: ids) simp
  ultimately show ?thesis
    using order content frame by blast
qed

theorem list_invoices_summaries_witness:
  "map inv_id (invoices after_second_invoice) = [1, 2] \<and>
   map (\<lambda>i. clients after_second_invoice (inv_client_id i) \<noteq> None)
     (invoices after_second_invoice) = [True, True] \<and>
   list_invoices after_second_invoice =
     (Inr [\<lparr>l_id = 2, l_invoice_no = ''INV-002'', l_issue_date = Date 2023 10 28,
            l_due_date = Date 2023 11 28, l_client_name = ''Globex Inc'',
            l_total_amount = 165\<rparr>,
           \<lparr>l_id = 1, l_invoice_no = ''INV-001'', l_issue_date = Date 2023 10 27,
            l_due_date = Date 2023 11 27, l_client_name = ''Acme Corp'', l_total_amount = 77\<rparr>],
      after_second_invoice)"
proof -
  have ids: "distinct (map inv_id (invoices after_second_invoice))"
    by (simp add: after_second_invoice_def after_test_invoice_def)
  have refs: "\<forall>i\<in>set (invoices after_second_invoice).
      clients after_second_invoice (inv_client_id i) \<noteq> None"
    by (simp add: after_second_invoice_def after_test_invoice_def upgrade_def seed_clients_def)
  from list_invoices_summaries [OF ids refs] show ?thesis
    by (simp add: list_invoices_unfold)
       (simp add: after_second_invoice_def after_test_invoice_def upgrade_def seed_clients_def
          list_row_def)
qed

end
